theory Spec2Isabelle
  imports Main "HOL-Library.Sublist" "HOL-Library.Char_ord" "HOL-Library.List_Lexorder"
begin

section \<open>JavaScript values used by the tracker\<close>

text \<open>
  Strings are lists of 8-bit characters, read as the code units U+0000 to U+00FF.
  Numbers are the integers together with \<open>NaN\<close>: every number the tracker computes comes
  from \<open>parseInt\<close>, \<open>*\<close>, \<open>+\<close>, \<open>Math.floor\<close> and \<open>%\<close> on integers, and the model is
  exact as long as the values stay below \<open>2 ^ 53\<close>.
\<close>

datatype number = NaN | Num int

fun number_add :: "number \<Rightarrow> number \<Rightarrow> number" where
  "number_add (Num a) (Num b) = Num (a + b)"
| "number_add _ _ = NaN"

fun number_mul :: "number \<Rightarrow> number \<Rightarrow> number" where
  "number_mul (Num a) (Num b) = Num (a * b)"
| "number_mul _ _ = NaN"

text \<open>The comparisons \<open><\<close>, \<open><=\<close> and \<open>></\<close> are false as soon as one side is \<open>NaN\<close>.\<close>

fun number_lt :: "number \<Rightarrow> number \<Rightarrow> bool" where
  "number_lt (Num a) (Num b) = (a < b)"
| "number_lt _ _ = False"

fun number_le :: "number \<Rightarrow> number \<Rightarrow> bool" where
  "number_le (Num a) (Num b) = (a \<le> b)"
| "number_le _ _ = False"

definition number_gt :: "number \<Rightarrow> number \<Rightarrow> bool" where
  "number_gt a b = number_lt b a"

text \<open>\<open>Math.floor(a / b)\<close> on integers with a nonzero divisor.\<close>

fun floor_div :: "number \<Rightarrow> int \<Rightarrow> number" where
  "floor_div (Num a) b = Num (a div b)"
| "floor_div NaN b = NaN"

text \<open>The remainder \<open>a % b\<close> takes the sign of the dividend.\<close>

definition js_rem :: "int \<Rightarrow> int \<Rightarrow> int" where
  "js_rem a b = sgn a * (\<bar>a\<bar> mod \<bar>b\<bar>)"

fun number_rem :: "number \<Rightarrow> int \<Rightarrow> number" where
  "number_rem (Num a) b = Num (js_rem a b)"
| "number_rem NaN b = NaN"

subsection \<open>Decimal rendering\<close>

definition digit_char :: "nat \<Rightarrow> char" where
  "digit_char d = char_of (48 + d)"

fun nat_toString :: "nat \<Rightarrow> string" where
  "nat_toString n =
     (if n < 10 then [digit_char n] else nat_toString (n div 10) @ [digit_char (n mod 10)])"

declare nat_toString.simps [simp del]

text \<open>\<open>Number.prototype.toString\<close>, also what a template literal interpolates.\<close>

fun Number_toString :: "number \<Rightarrow> string" where
  "Number_toString NaN = ''NaN''"
| "Number_toString (Num i) =
     (if i < 0 then CHR ''-'' # nat_toString (nat (- i)) else nat_toString (nat i))"

text \<open>Reading a digit string back, most significant digit first.\<close>

definition is_digit :: "char \<Rightarrow> bool" where
  "is_digit c = (48 \<le> (of_char c :: nat) \<and> (of_char c :: nat) \<le> 57)"

definition digit_val :: "char \<Rightarrow> nat" where
  "digit_val c = of_char c - 48"

definition decimal_value :: "string \<Rightarrow> nat" where
  "decimal_value s = foldl (\<lambda>acc c. 10 * acc + digit_val c) 0 s"

subsection \<open>Strings\<close>

text \<open>
  White space as \<open>trim\<close> and \<open>parseInt\<close> see it: TAB, LF, VT, FF, CR, SP and NBSP are
  the white space and line terminator code units below U+0100.
\<close>

definition is_space :: "char \<Rightarrow> bool" where
  "is_space c =
     (let n = (of_char c :: nat)
      in n = 9 \<or> n = 10 \<or> n = 11 \<or> n = 12 \<or> n = 13 \<or> n = 32 \<or> n = 160)"

definition trim :: "string \<Rightarrow> string" where
  "trim s = rev (dropWhile is_space (rev (dropWhile is_space s)))"

text \<open>
  \<open>toLowerCase\<close> maps A to Z, and the accented capitals U+00C0 to U+00DE other than the
  multiplication sign U+00D7, to the code unit 32 above.
\<close>

definition lower_char :: "char \<Rightarrow> char" where
  "lower_char c =
     (let n = (of_char c :: nat)
      in if (65 \<le> n \<and> n \<le> 90) \<or> (192 \<le> n \<and> n \<le> 222 \<and> n \<noteq> 215)
         then char_of (n + 32) else c)"

definition toLowerCase :: "string \<Rightarrow> string" where
  "toLowerCase s = map lower_char s"

text \<open>\<open>s.includes(t)\<close>: \<open>t\<close> starts at some position of \<open>s\<close>.\<close>

fun includes_str :: "string \<Rightarrow> string \<Rightarrow> bool" where
  "includes_str [] t = (t = [])"
| "includes_str (c # s) t = (prefix t (c # s) \<or> includes_str s t)"

text \<open>
  \<open>parseInt(str)\<close> without a radix: leading white space is skipped, a sign is read, a
  prefix \<open>0x\<close> or \<open>0X\<close> selects radix 16, and the longest run of digits of the radix is
  the value; no digit at all gives \<open>NaN\<close>.
\<close>

definition is_hex_digit :: "char \<Rightarrow> bool" where
  "is_hex_digit c =
     (let n = (of_char c :: nat)
      in (48 \<le> n \<and> n \<le> 57) \<or> (65 \<le> n \<and> n \<le> 70) \<or> (97 \<le> n \<and> n \<le> 102))"

definition hex_digit_val :: "char \<Rightarrow> nat" where
  "hex_digit_val c =
     (let n = (of_char c :: nat)
      in if n \<le> 57 then n - 48 else if n \<le> 70 then n - 55 else n - 87)"

definition hex_value :: "string \<Rightarrow> nat" where
  "hex_value s = foldl (\<lambda>acc c. 16 * acc + hex_digit_val c) 0 s"

definition parseInt :: "string \<Rightarrow> number" where
  "parseInt str =
     (let S = dropWhile is_space str;
          neg = (case S of [] \<Rightarrow> False | c # _ \<Rightarrow> c = CHR ''-'');
          S1 = (case S of [] \<Rightarrow> S
                | c # cs \<Rightarrow> if c = CHR ''+'' \<or> c = CHR ''-'' then cs else S);
          hex = (case S1 of a # b # _ \<Rightarrow> a = CHR ''0'' \<and> (b = CHR ''x'' \<or> b = CHR ''X'')
                 | _ \<Rightarrow> False);
          S2 = (if hex then drop 2 S1 else S1);
          Z = takeWhile (if hex then is_hex_digit else is_digit) S2
      in if Z = [] then NaN
         else let mathInt = int (if hex then hex_value Z else decimal_value Z)
              in Num (if neg then - mathInt else mathInt))"

subsection \<open>Time values and calendar dates\<close>

text \<open>
  A \<open>Date\<close> is its time value, the milliseconds since 1970-01-01T00:00Z. The host's time
  zone is a fixed offset \<open>tz\<close>, in minutes east of UTC; daylight-saving transitions are
  not modelled.
\<close>

definition msPerDay :: int where
  "msPerDay = 86400000"

definition Day :: "int \<Rightarrow> int" where
  "Day t = t div msPerDay"

definition TimeWithinDay :: "int \<Rightarrow> int" where
  "TimeWithinDay t = t mod msPerDay"

definition WeekDay :: "int \<Rightarrow> int" where
  "WeekDay t = (Day t + 4) mod 7"

definition LocalTime :: "int \<Rightarrow> int \<Rightarrow> int" where
  "LocalTime tz t = t + tz * 60000"

definition UTC :: "int \<Rightarrow> int \<Rightarrow> int" where
  "UTC tz t = t - tz * 60000"

text \<open>
  The proleptic Gregorian calendar. Days are counted from 0000-03-01, so that the leap
  day ends a year: a 400-year era has 146097 days, a century 36524 (the last one of an era
  one more), four years 1461, and \<open>mp\<close> counts the months from March.
\<close>

definition civil_from_days :: "int \<Rightarrow> int \<times> int \<times> int" where
  "civil_from_days n =
     (let z = n + 719468;
          era = z div 146097;
          doe = z mod 146097;
          c = min 3 (doe div 36524);
          r100 = doe - c * 36524;
          q = r100 div 1461;
          r4 = r100 mod 1461;
          a = min 3 (r4 div 365);
          doy = r4 - a * 365;
          mp = (5 * doy + 2) div 153;
          d = doy - (153 * mp + 2) div 5 + 1;
          m = (if mp < 10 then mp + 3 else mp - 9)
      in (400 * era + 100 * c + 4 * q + a + (if m \<le> 2 then 1 else 0), m, d))"

definition days_from_civil :: "int \<Rightarrow> int \<Rightarrow> int \<Rightarrow> int" where
  "days_from_civil y m d =
     (let y' = (if m \<le> 2 then y - 1 else y);
          era = y' div 400;
          yoe = y' mod 400;
          mp = (if m > 2 then m - 3 else m + 9);
          doy = (153 * mp + 2) div 5 + d - 1;
          doe = yoe * 365 + yoe div 4 - yoe div 100 + doy
      in era * 146097 + doe - 719468)"

definition is_leap :: "int \<Rightarrow> bool" where
  "is_leap y = (y mod 4 = 0 \<and> (y mod 100 \<noteq> 0 \<or> y mod 400 = 0))"

definition days_in_month :: "int \<Rightarrow> int \<Rightarrow> int" where
  "days_in_month y m =
     (if m = 2 then (if is_leap y then 29 else 28)
      else if m = 4 \<or> m = 6 \<or> m = 9 \<or> m = 11 then 30 else 31)"

text \<open>The accessors of a \<open>Date\<close> in local time, and the two setters the tracker uses.\<close>

definition getDate :: "int \<Rightarrow> int \<Rightarrow> int" where
  "getDate tz t = (case civil_from_days (Day (LocalTime tz t)) of (y, m, d) \<Rightarrow> d)"

definition getDay :: "int \<Rightarrow> int \<Rightarrow> int" where
  "getDay tz t = WeekDay (LocalTime tz t)"

text \<open>
  \<open>setDate(dt)\<close> keeps the local year, month and time of day and moves to day \<open>dt\<close> of
  the month, counting on into the neighbouring months when \<open>dt\<close> is not a day of it.
\<close>

definition MakeDay :: "int \<Rightarrow> int \<Rightarrow> int \<Rightarrow> int" where
  "MakeDay y m dt = days_from_civil y m 1 + dt - 1"

definition setDate :: "int \<Rightarrow> int \<Rightarrow> int \<Rightarrow> int" where
  "setDate tz t dt =
     (let lt = LocalTime tz t
      in case civil_from_days (Day lt) of
           (y, m, d) \<Rightarrow> UTC tz (MakeDay y m dt * msPerDay + TimeWithinDay lt))"

text \<open>\<open>setHours(0, 0, 0, 0)\<close>: the start of the local day.\<close>

definition setHours0 :: "int \<Rightarrow> int \<Rightarrow> int" where
  "setHours0 tz t = UTC tz (Day (LocalTime tz t) * msPerDay)"

text \<open>
  \<open>toISOString\<close> renders the UTC fields as \<open>YYYY-MM-DDTHH:mm:ss.sssZ\<close>, with a sign and
  six digits for a year outside 0 to 9999.
\<close>

definition pad :: "nat \<Rightarrow> int \<Rightarrow> string" where
  "pad w n = (let s = nat_toString (nat n) in replicate (w - length s) CHR ''0'' @ s)"

definition year_string :: "int \<Rightarrow> string" where
  "year_string y =
     (if 0 \<le> y \<and> y \<le> 9999 then pad 4 y
      else (if y < 0 then CHR ''-'' else CHR ''+'') # pad 6 \<bar>y\<bar>)"

definition iso_date :: "int \<Rightarrow> string" where
  "iso_date n =
     (case civil_from_days n of
        (y, m, d) \<Rightarrow> year_string y @ ''-'' @ pad 2 m @ ''-'' @ pad 2 d)"

definition toISOString :: "int \<Rightarrow> string" where
  "toISOString t =
     (let r = TimeWithinDay t
      in iso_date (Day t) @ ''T'' @ pad 2 (r div 3600000) @ '':'' @ pad 2 (r div 60000 mod 60)
           @ '':'' @ pad 2 (r div 1000 mod 60) @ ''.'' @ pad 3 (r mod 1000) @ ''Z'')"

text \<open>\<open>s.split('T')[0]\<close>: the part of \<open>s\<close> before the first \<open>T\<close>.\<close>

definition split_T_0 :: "string \<Rightarrow> string" where
  "split_T_0 s = takeWhile (\<lambda>c. c \<noteq> CHR ''T'') s"

text \<open>
  \<open>new Date(s)\<close> for the value of a date input, \<open>YYYY-MM-DD\<close>: the start of that day in
  UTC. The model covers the strings that name a day of the calendar, on which every
  engine agrees; any other string is taken as an invalid date, whose time value is \<open>NaN\<close>
  (here \<open>None\<close>).
\<close>

definition date_fields :: "string \<Rightarrow> (int \<times> int \<times> int) option" where
  "date_fields s =
     (if length s = 10 \<and> s ! 4 = CHR ''-'' \<and> s ! 7 = CHR ''-''
         \<and> list_all is_digit (take 4 s) \<and> list_all is_digit (take 2 (drop 5 s))
         \<and> list_all is_digit (drop 8 s)
      then Some (int (decimal_value (take 4 s)), int (decimal_value (take 2 (drop 5 s))),
                 int (decimal_value (drop 8 s)))
      else None)"

definition valid_date :: "string \<Rightarrow> bool" where
  "valid_date s =
     (case date_fields s of
        None \<Rightarrow> False
      | Some (y, m, d) \<Rightarrow> 1 \<le> m \<and> m \<le> 12 \<and> 1 \<le> d \<and> d \<le> days_in_month y m)"

definition Date_parse :: "string \<Rightarrow> int option" where
  "Date_parse s =
     (case date_fields s of
        None \<Rightarrow> None
      | Some (y, m, d) \<Rightarrow>
          if 1 \<le> m \<and> m \<le> 12 \<and> 1 \<le> d \<and> d \<le> days_in_month y m
          then Some (days_from_civil y m d * msPerDay) else None)"

subsection \<open>JSON texts\<close>






















datatype exception = SyntaxError | TypeError | QuotaExceededError | SecurityError


text \<open>\<open>JSON.stringify\<close> of a string: quoted, with the escapes JSON requires.\<close>

definition hex_char :: "nat \<Rightarrow> char" where
  "hex_char d = (if d < 10 then char_of (48 + d) else char_of (87 + d))"

definition quote_char :: "char \<Rightarrow> string" where
  "quote_char c =
     (let n = (of_char c :: nat)
      in if n = 34 then [CHR 0x5C, CHR 0x22]
         else if n = 92 then [CHR 0x5C, CHR 0x5C]
         else if n = 8 then [CHR 0x5C, CHR ''b'']
         else if n = 9 then [CHR 0x5C, CHR ''t'']
         else if n = 10 then [CHR 0x5C, CHR ''n'']
         else if n = 12 then [CHR 0x5C, CHR ''f'']
         else if n = 13 then [CHR 0x5C, CHR ''r'']
         else if n < 32 then [CHR 0x5C, CHR ''u'', CHR ''0'', CHR ''0'', hex_char (n div 16),
                              hex_char (n mod 16)]
         else [c])"

definition quote_string :: "string \<Rightarrow> string" where
  "quote_string s = CHR 0x22 # concat (map quote_char s) @ [CHR 0x22]"

text \<open>\<open>JSON.stringify\<close> of a number: \<open>NaN\<close> is written \<open>null\<close>.\<close>

fun stringify_number :: "number \<Rightarrow> string" where
  "stringify_number NaN = ''null''"
| "stringify_number (Num i) = Number_toString (Num i)"

fun join :: "string \<Rightarrow> string list \<Rightarrow> string" where
  "join sep [] = []"
| "join sep [x] = x"
| "join sep (x # y # ys) = x @ sep @ join sep (y # ys)"

section \<open>The tracker's state\<close>

text \<open>
  A study session as \<open>handleFormSubmit\<close> builds it; the fields \<open>id\<close> and \<open>notes\<close> are called
  \<open>id_s\<close> and \<open>notes_s\<close>.
\<close>

record session =
  id_s :: string
  subject :: string
  duration :: number
  timeUnit :: string
  date :: string
  notes_s :: string
  timestamp :: string

text \<open>The fields of the submitted form, as \<open>FormData.get\<close> returns them.\<close>

record form =
  f_subject :: string
  f_duration :: string
  f_timeUnit :: string
  f_date :: string
  f_notes :: string

text \<open>
  The slot \<open>studyTrackerData\<close> of \<open>localStorage\<close>. A write throws when the text is longer
  than the room the browser leaves (\<open>capacity\<close>), and every access throws when the page
  may not use the storage (\<open>blocked\<close>).
\<close>

record storage =
  item :: "string option"
  capacity :: nat
  blocked :: bool


definition setItem :: "string \<Rightarrow> storage \<Rightarrow> exception + storage" where
  "setItem v ls =
     (if blocked ls then Inl SecurityError
      else if capacity ls < length v then Inl QuotaExceededError
      else Inr (ls\<lparr>item := Some v\<rparr>))"

text \<open>
  The tracker object and the part of the page it reads back: the two filter controls, the
  options of the subject filter, the cards in the log container, the notifications shown
  and the console. The summary line and the two canvases are written and never read; they
  are the values of \<open>updateSummary\<close> and \<open>renderDailyChart\<close> below.
\<close>

record tracker =
  studyLogs :: "session list"
  filteredLogs :: "session list"
  currentAction :: "string option"
  filterSubject :: string
  filterDate :: string
  subjectOptions :: "string list"
  logsContainer :: "session list"
  modalShown :: bool
  localStorage :: storage
  notifications :: "(string \<times> string) list"
  console :: "string list"

section \<open>Persistence\<close>

definition stringify_session :: "session \<Rightarrow> string" where
  "stringify_session log =
     ''{'' @ join '','' [
        quote_string ''id'' @ '':'' @ quote_string (id_s log),
        quote_string ''subject'' @ '':'' @ quote_string (subject log),
        quote_string ''duration'' @ '':'' @ stringify_number (duration log),
        quote_string ''timeUnit'' @ '':'' @ quote_string (timeUnit log),
        quote_string ''date'' @ '':'' @ quote_string (date log),
        quote_string ''notes'' @ '':'' @ quote_string (notes_s log),
        quote_string ''timestamp'' @ '':'' @ quote_string (timestamp log)] @ ''}''"

definition JSON_stringify :: "session list \<Rightarrow> string" where
  "JSON_stringify logs = ''['' @ join '','' (map stringify_session logs) @ '']''"

text \<open>
  \<^verbatim>\<open>
  saveToLocalStorage() {
      try {
          localStorage.setItem('studyTrackerData', JSON.stringify(this.studyLogs));
      } catch (error) {
          console.error('Failed to save to localStorage:', error);
      }
  }
  \<close>
\<close>

definition saveToLocalStorage :: "tracker \<Rightarrow> tracker" where
  "saveToLocalStorage st =
     (case setItem (JSON_stringify (studyLogs st)) (localStorage st) of
        Inr ls \<Rightarrow> st\<lparr>localStorage := ls\<rparr>
      | Inl error \<Rightarrow> st\<lparr>console := console st @ [''Failed to save to localStorage:'']\<rparr>)"


section \<open>Filtering and rendering\<close>

definition showNotification :: "string \<Rightarrow> string \<Rightarrow> tracker \<Rightarrow> tracker" where
  "showNotification message type st = st\<lparr>notifications := notifications st @ [(message, type)]\<rparr>"

text \<open>\<open>renderLogs\<close> shows one card for each entry of \<open>filteredLogs\<close>.\<close>

definition renderLogs :: "tracker \<Rightarrow> tracker" where
  "renderLogs st = st\<lparr>logsContainer := filteredLogs st\<rparr>"

text \<open>
  \<^verbatim>\<open>
  this.filteredLogs = this.studyLogs.filter(log => {
      const subjectMatch = !subjectFilter
          || log.subject.toLowerCase().includes(subjectFilter.toLowerCase());
      const dateMatch = !dateFilter || log.date === dateFilter;
      return subjectMatch && dateMatch;
  });
  \<close>
\<close>

definition subjectMatch :: "string \<Rightarrow> session \<Rightarrow> bool" where
  "subjectMatch subjectFilter log =
     (subjectFilter = [] \<or> includes_str (toLowerCase (subject log)) (toLowerCase subjectFilter))"

definition dateMatch :: "string \<Rightarrow> session \<Rightarrow> bool" where
  "dateMatch dateFilter log = (dateFilter = [] \<or> date log = dateFilter)"

definition applyFilters :: "tracker \<Rightarrow> tracker" where
  "applyFilters st =
     (let subjectFilter = filterSubject st;
          dateFilter = filterDate st
      in renderLogs
           (st\<lparr>filteredLogs :=
                 filter (\<lambda>log. subjectMatch subjectFilter log \<and> dateMatch dateFilter log)
                   (studyLogs st)\<rparr>))"

definition clearFilters :: "tracker \<Rightarrow> tracker" where
  "clearFilters st =
     renderLogs (st\<lparr>filterSubject := [], filterDate := [], filteredLogs := studyLogs st\<rparr>)"

text \<open>
  \<open>updateFilters\<close> rewrites the options of the subject filter: the distinct subjects in
  code unit order, after the option ``All Subjects'' of value \<open>""\<close>. Rewriting the options
  leaves the first one selected, so the control's value is \<open>""\<close> afterwards.
\<close>

definition updateFilters :: "tracker \<Rightarrow> tracker" where
  "updateFilters st =
     (let subjects = sort (remdups (map subject (studyLogs st)))
      in st\<lparr>subjectOptions := subjects, filterSubject := []\<rparr>)"

section \<open>Adding, deleting and clearing\<close>

text \<open>
  \<open>handleFormSubmit\<close>, given the two readings of the clock it takes: \<open>now\<close> for
  \<open>Date.now()\<close> and \<open>stamp\<close> for \<open>new Date()\<close>.
  \<^verbatim>\<open>
  const studySession = {
      id: Date.now().toString(),
      subject: formData.get('subject').trim(),
      duration: parseInt(formData.get('duration')),
      timeUnit: formData.get('timeUnit'),
      date: formData.get('date'),
      notes: formData.get('notes').trim(),
      timestamp: new Date().toISOString()
  };
  if (!studySession.subject || studySession.duration <= 0) {
      this.showNotification('Please fill in all required fields correctly.', 'error');
      return;
  }
  this.studyLogs.unshift(studySession);
  this.saveToLocalStorage();
  this.updateSummary();
  this.renderLogs();
  this.updateFilters();
  this.renderCharts();
  ...
  this.showNotification('Study session added successfully!', 'success');
  \<close>
\<close>

definition new_session :: "int \<Rightarrow> int \<Rightarrow> form \<Rightarrow> session" where
  "new_session now stamp formData =
     \<lparr> id_s = Number_toString (Num now),
       subject = trim (f_subject formData),
       duration = parseInt (f_duration formData),
       timeUnit = f_timeUnit formData,
       date = f_date formData,
       notes_s = trim (f_notes formData),
       timestamp = toISOString stamp \<rparr>"

definition handleFormSubmit :: "int \<Rightarrow> int \<Rightarrow> form \<Rightarrow> tracker \<Rightarrow> tracker" where
  "handleFormSubmit now stamp formData st =
     (let studySession = new_session now stamp formData
      in if subject studySession = [] \<or> number_le (duration studySession) (Num 0)
         then showNotification ''Please fill in all required fields correctly.'' ''error'' st
         else
           let st1 = st\<lparr>studyLogs := studySession # studyLogs st\<rparr>;
               st2 = saveToLocalStorage st1;
               st3 = renderLogs st2;
               st4 = updateFilters st3
           in showNotification ''Study session added successfully!'' ''success'' st4)"

text \<open>
  \<^verbatim>\<open>
  deleteLog(id) {
      this.studyLogs = this.studyLogs.filter(log => log.id !== id);
      this.saveToLocalStorage();
      this.updateSummary();
      this.renderLogs();
      this.updateFilters();
      this.renderCharts();
      this.showNotification('Study session deleted successfully!', 'success');
  }
  \<close>
  The method has no \<open>return\<close>: a call evaluates to \<open>undefined\<close>.
\<close>

datatype returned = Undefined | Boolean bool

definition deleteLog :: "string \<Rightarrow> tracker \<Rightarrow> returned \<times> tracker" where
  "deleteLog ident st =
     (let st1 = st\<lparr>studyLogs := filter (\<lambda>log. id_s log \<noteq> ident) (studyLogs st)\<rparr>;
          st2 = saveToLocalStorage st1;
          st3 = renderLogs st2;
          st4 = updateFilters st3
      in (Undefined, showNotification ''Study session deleted successfully!'' ''success'' st4))"

text \<open>Clearing everything: the button opens the modal, and its confirmation clears.\<close>

definition showClearAllConfirmation :: "tracker \<Rightarrow> tracker" where
  "showClearAllConfirmation st = st\<lparr>modalShown := True, currentAction := Some ''clearAll''\<rparr>"

definition hideModal :: "tracker \<Rightarrow> tracker" where
  "hideModal st = st\<lparr>modalShown := False\<rparr>"

definition handleModalConfirm :: "tracker \<Rightarrow> tracker" where
  "handleModalConfirm st =
     hideModal
       (if currentAction st = Some ''clearAll''
        then
          let st1 = st\<lparr>studyLogs := []\<rparr>;
              st2 = saveToLocalStorage st1;
              st3 = renderLogs st2;
              st4 = updateFilters st3
          in showNotification ''All study sessions cleared!'' ''success'' st4
        else st)"

text \<open>
  The tracker right after its construction on a page whose storage holds no sessions:
  \<open>studyLogs\<close> is \<open>[]\<close>, \<open>filteredLogs\<close> a copy of it, and \<open>init\<close> has rendered both.
\<close>

definition fresh_tracker :: "storage \<Rightarrow> tracker" where
  "fresh_tracker ls =
     \<lparr> studyLogs = [], filteredLogs = [], currentAction = None, filterSubject = [],
       filterDate = [], subjectOptions = [], logsContainer = [], modalShown = False,
       localStorage = ls, notifications = [], console = [] \<rparr>"

section \<open>Totals\<close>

text \<open>
  \<^verbatim>\<open>
  calculateTotalMinutes(logs) {
      return logs.reduce((total, log) => {
          const minutes = log.timeUnit === 'hours' ? log.duration * 60 : log.duration;
          return total + minutes;
      }, 0);
  }
  \<close>
\<close>

definition minutes_of :: "session \<Rightarrow> number" where
  "minutes_of log =
     (if timeUnit log = ''hours'' then number_mul (duration log) (Num 60) else duration log)"

definition calculateTotalMinutes :: "session list \<Rightarrow> number" where
  "calculateTotalMinutes logs = foldl (\<lambda>total log. number_add total (minutes_of log)) (Num 0) logs"

text \<open>
  \<^verbatim>\<open>
  getWeekLogs() {
      const today = new Date();
      const startOfWeek = new Date(today);
      startOfWeek.setDate(today.getDate() - today.getDay());
      startOfWeek.setHours(0, 0, 0, 0);
      return this.studyLogs.filter(log => {
          const logDate = new Date(log.date);
          return logDate >= startOfWeek;
      });
  }
  \<close>
  \<open>now\<close> is the reading of the clock. A comparison with an invalid date is false.
\<close>

definition startOfWeek :: "int \<Rightarrow> int \<Rightarrow> int" where
  "startOfWeek tz now =
     (let today = now
      in setHours0 tz (setDate tz today (getDate tz today - getDay tz today)))"

definition getWeekLogs :: "int \<Rightarrow> int \<Rightarrow> session list \<Rightarrow> session list" where
  "getWeekLogs tz now logs =
     filter (\<lambda>log. case Date_parse (date log) of
                      None \<Rightarrow> False
                    | Some logDate \<Rightarrow> startOfWeek tz now \<le> logDate) logs"

section \<open>Formatting a duration\<close>

text \<open>
  \<^verbatim>\<open>
  formatDuration(minutes) {
      if (minutes < 60) { return `${minutes} min`; }
      const hours = Math.floor(minutes / 60);
      const remainingMinutes = minutes % 60;
      return remainingMinutes > 0 ? `${hours}h ${remainingMinutes}m` : `${hours}h`;
  }
  \<close>
\<close>

definition formatDuration :: "number \<Rightarrow> string" where
  "formatDuration minutes =
     (if number_lt minutes (Num 60) then Number_toString minutes @ '' min''
      else
        let hours = floor_div minutes 60;
            remainingMinutes = number_rem minutes 60
        in if number_gt remainingMinutes (Num 0)
           then Number_toString hours @ ''h '' @ Number_toString remainingMinutes @ ''m''
           else Number_toString hours @ ''h'')"

text \<open>
  \<^verbatim>\<open>
  updateSummary() {
      const today = new Date().toISOString().split('T')[0];
      const todayLogs = this.studyLogs.filter(log => log.date === today);
      const weekLogs = this.getWeekLogs();
      const todayTotal = this.calculateTotalMinutes(todayLogs);
      const weekTotal = this.calculateTotalMinutes(weekLogs);
      ...
  }
  \<close>
  The three texts written to the summary line.
\<close>

definition todayTotal :: "int \<Rightarrow> session list \<Rightarrow> number" where
  "todayTotal now logs =
     (let today = split_T_0 (toISOString now)
      in calculateTotalMinutes (filter (\<lambda>log. date log = today) logs))"

definition weekTotal :: "int \<Rightarrow> int \<Rightarrow> session list \<Rightarrow> number" where
  "weekTotal tz now logs = calculateTotalMinutes (getWeekLogs tz now logs)"

definition updateSummary :: "int \<Rightarrow> int \<Rightarrow> session list \<Rightarrow> string \<times> string \<times> string" where
  "updateSummary tz now logs =
     (formatDuration (todayTotal now logs), formatDuration (weekTotal tz now logs),
      nat_toString (length logs))"



section \<open>Runs and examples\<close>

text \<open>A run of submissions: each with its two clock readings and its form.\<close>

fun submit_all :: "(int \<times> int \<times> form) list \<Rightarrow> tracker \<Rightarrow> tracker" where
  "submit_all [] st = st"
| "submit_all ((now, stamp, formData) # evs) st =
     submit_all evs (handleFormSubmit now stamp formData st)"

text \<open>The day a valid date string names, counted from 1970-01-01.\<close>

definition date_day :: "string \<Rightarrow> int" where
  "date_day s = (case date_fields s of None \<Rightarrow> 0 | Some (y, m, d) \<Rightarrow> days_from_civil y m d)"

text \<open>The integer a number is, for the numbers that are not \<open>NaN\<close>.\<close>

definition int_of :: "number \<Rightarrow> int" where
  "int_of x = (case x of NaN \<Rightarrow> 0 | Num n \<Rightarrow> n)"

text \<open>An empty storage of five million characters, and sessions and forms to try.\<close>

definition storage0 :: storage where
  "storage0 = \<lparr> item = None, capacity = 5000000, blocked = False \<rparr>"

definition math_form :: form where
  "math_form = \<lparr> f_subject = ''Math'', f_duration = ''30'', f_timeUnit = ''minutes'',
                 f_date = ''2024-01-10'', f_notes = '''' \<rparr>"

definition mk_session :: "string \<Rightarrow> string \<Rightarrow> int \<Rightarrow> string \<Rightarrow> string \<Rightarrow> session" where
  "mk_session i s n u d =
     \<lparr> id_s = i, subject = s, duration = Num n, timeUnit = u, date = d, notes_s = [],
       timestamp = ''2024-01-10T12:00:00.000Z'' \<rparr>"


section \<open>Properties of the decimal rendering\<close>


lemma decimal_value_snoc: "decimal_value (s @ [c]) = 10 * decimal_value s + digit_val c"
  by (simp add: decimal_value_def)

lemma digit_val_digit_char: "d < 10 \<Longrightarrow> digit_val (digit_char d) = d"
  by (simp add: digit_val_def digit_char_def)

lemma is_digit_digit_char: "d < 10 \<Longrightarrow> is_digit (digit_char d)"
  by (simp add: is_digit_def digit_char_def)

text \<open>Reading the rendering of \<open>n\<close> back gives \<open>n\<close>: the rendering is the decimal numeral.\<close>

lemma decimal_value_nat_toString: "decimal_value (nat_toString n) = n"
proof (induction n rule: nat_toString.induct)
  case (1 n)
  show ?case
  proof (cases "n < 10")
    case True
    then show ?thesis
      by (simp add: nat_toString.simps[of n] decimal_value_def digit_val_digit_char)
  next
    case False
    then have "decimal_value (nat_toString n)
        = 10 * decimal_value (nat_toString (n div 10)) + n mod 10"
      by (simp add: nat_toString.simps[of n] decimal_value_snoc digit_val_digit_char)
    with 1 False show ?thesis by simp
  qed
qed

lemma digits_nat_toString: "list_all is_digit (nat_toString n)"
proof (induction n rule: nat_toString.induct)
  case (1 n)
  then show ?case
    by (cases "n < 10") (simp_all add: nat_toString.simps[of n] is_digit_digit_char)
qed

lemma nat_toString_not_Nil: "nat_toString n \<noteq> []"
  by (simp add: nat_toString.simps[of n])


section \<open>Duration formatting\<close>



section \<open>What the helpers leave alone\<close>

lemma studyLogs_saveToLocalStorage [simp]: "studyLogs (saveToLocalStorage st) = studyLogs st"
  by (simp add: saveToLocalStorage_def split: sum.splits)

lemma filteredLogs_saveToLocalStorage [simp]:
  "filteredLogs (saveToLocalStorage st) = filteredLogs st"
  by (simp add: saveToLocalStorage_def split: sum.splits)

lemma notifications_saveToLocalStorage [simp]:
  "notifications (saveToLocalStorage st) = notifications st"
  by (simp add: saveToLocalStorage_def split: sum.splits)

lemma controls_saveToLocalStorage [simp]:
  "filterSubject (saveToLocalStorage st) = filterSubject st"
  "filterDate (saveToLocalStorage st) = filterDate st"
  "subjectOptions (saveToLocalStorage st) = subjectOptions st"
  "logsContainer (saveToLocalStorage st) = logsContainer st"
  "currentAction (saveToLocalStorage st) = currentAction st"
  "modalShown (saveToLocalStorage st) = modalShown st"
  by (simp_all add: saveToLocalStorage_def split: sum.splits)

lemma studyLogs_deleteLog:
  "studyLogs (snd (deleteLog ident st)) = filter (\<lambda>log. id_s log \<noteq> ident) (studyLogs st)"
  by (simp add: deleteLog_def Let_def showNotification_def updateFilters_def renderLogs_def)

lemma count_list_filter:
  "count_list (filter P xs) x = (if P x then count_list xs x else 0)"
  by (induction xs) auto

section \<open>Deleting\<close>

text \<open>
  Claim C10. For every collection and every id, \<open>deleteLog\<close> leaves no session with that
  id (it removes every occurrence, not only the first), and the sessions that remain are
  the other ones, each as often as before, in their order and unchanged.
\<close>

theorem deleteLog_removes_every_occurrence:
  "(\<forall>log \<in> set (studyLogs (snd (deleteLog ident st))). id_s log \<noteq> ident)
   \<and> subseq (studyLogs (snd (deleteLog ident st))) (studyLogs st)
   \<and> (\<forall>log. id_s log \<noteq> ident \<longrightarrow>
         count_list (studyLogs (snd (deleteLog ident st))) log = count_list (studyLogs st) log)"
  by (simp add: studyLogs_deleteLog count_list_filter)

text \<open>Two of three sessions carry the id 17: deleting 17 leaves the third.\<close>

theorem deleteLog_removes_every_occurrence_witness:
  "studyLogs (snd (deleteLog ''17''
      ((fresh_tracker storage0)\<lparr>studyLogs :=
          [mk_session ''17'' ''Math'' 30 ''minutes'' ''2024-01-10'',
           mk_session ''18'' ''Physics'' 2 ''hours'' ''2024-01-09'',
           mk_session ''17'' ''Art'' 45 ''minutes'' ''2024-01-08'']\<rparr>)))
     = [mk_session ''18'' ''Physics'' 2 ''hours'' ''2024-01-09'']
   \<and> subseq (studyLogs (snd (deleteLog ''17''
      ((fresh_tracker storage0)\<lparr>studyLogs :=
          [mk_session ''17'' ''Math'' 30 ''minutes'' ''2024-01-10'',
           mk_session ''18'' ''Physics'' 2 ''hours'' ''2024-01-09'',
           mk_session ''17'' ''Art'' 45 ''minutes'' ''2024-01-08'']\<rparr>))))
        [mk_session ''17'' ''Math'' 30 ''minutes'' ''2024-01-10'',
         mk_session ''18'' ''Physics'' 2 ''hours'' ''2024-01-09'',
         mk_session ''17'' ''Art'' 45 ''minutes'' ''2024-01-08'']"
  using deleteLog_removes_every_occurrence[of "''17''"
      "(fresh_tracker storage0)\<lparr>studyLogs :=
          [mk_session ''17'' ''Math'' 30 ''minutes'' ''2024-01-10'',
           mk_session ''18'' ''Physics'' 2 ''hours'' ''2024-01-09'',
           mk_session ''17'' ''Art'' 45 ''minutes'' ''2024-01-08'']\<rparr>"]
  by (simp add: studyLogs_deleteLog mk_session_def)

text \<open>
  Claim C5 says that removing an id that is not in the collection returns false. The method
  returns nothing, and it shows the notification of a successful deletion.
\<close>

theorem deleteLog_returns_undefined_counterexample:
  "fst (deleteLog ''nonexistent'' (fresh_tracker storage0)) \<noteq> Boolean False
   \<and> notifications (snd (deleteLog ''nonexistent'' (fresh_tracker storage0)))
       = [(''Study session deleted successfully!'', ''success'')]"
  by (simp add: deleteLog_def Let_def showNotification_def updateFilters_def renderLogs_def
      fresh_tracker_def)

text \<open>
  Claim C5, amended. For every id that no session of the collection carries, \<open>deleteLog\<close>
  leaves the collection as it is and raises no error; the call evaluates to \<open>undefined\<close>,
  and the notification is the one of a deletion.
\<close>

theorem deleteLog_absent_id:
  assumes "ident \<notin> id_s ` set (studyLogs st)"
  shows "studyLogs (snd (deleteLog ident st)) = studyLogs st
     \<and> fst (deleteLog ident st) = Undefined
     \<and> notifications (snd (deleteLog ident st))
         = notifications st @ [(''Study session deleted successfully!'', ''success'')]"
proof -
  have "filter (\<lambda>log. id_s log \<noteq> ident) (studyLogs st) = studyLogs st"
    using assms by (intro filter_True) auto
  then show ?thesis
    by (simp add: deleteLog_def Let_def showNotification_def updateFilters_def renderLogs_def)
qed

theorem deleteLog_absent_id_witness:
  "''19'' \<notin> id_s ` set [mk_session ''17'' ''Math'' 30 ''minutes'' ''2024-01-10'']
   \<and> studyLogs (snd (deleteLog ''19''
        ((fresh_tracker storage0)\<lparr>studyLogs :=
           [mk_session ''17'' ''Math'' 30 ''minutes'' ''2024-01-10'']\<rparr>)))
      = [mk_session ''17'' ''Math'' 30 ''minutes'' ''2024-01-10'']
   \<and> fst (deleteLog ''19''
        ((fresh_tracker storage0)\<lparr>studyLogs :=
           [mk_session ''17'' ''Math'' 30 ''minutes'' ''2024-01-10'']\<rparr>)) = Undefined"
  using deleteLog_absent_id[of "''19''"
      "(fresh_tracker storage0)\<lparr>studyLogs :=
           [mk_session ''17'' ''Math'' 30 ''minutes'' ''2024-01-10'']\<rparr>"]
  by (simp add: mk_session_def)

section \<open>Filtering\<close>


lemma toLowerCase_append [simp]: "toLowerCase (u @ v) = toLowerCase u @ toLowerCase v"
  by (simp add: toLowerCase_def)




section \<open>Adding\<close>

lemmas string_eval = trim_def is_space_def parseInt_def is_digit_def is_hex_digit_def
  decimal_value_def digit_val_def

text \<open>
  Claim C4 says that a rejected submission is answered by an error that identifies the
  field that failed. A submission whose only fault is the subject and one whose only fault
  is the duration leave the tracker in the same state: one notification, the same for both.
\<close>

theorem handleFormSubmit_error_counterexample:
  "handleFormSubmit 1704888000123 1704888000124 (math_form\<lparr>f_subject := ''  ''\<rparr>)
      (fresh_tracker storage0)
   = handleFormSubmit 1704888000123 1704888000124 (math_form\<lparr>f_duration := ''0''\<rparr>)
      (fresh_tracker storage0)"
  by (simp add: handleFormSubmit_def new_session_def Let_def math_form_def string_eval)

text \<open>
  Claim C4, amended. For every submission whose subject is empty after trimming, or whose
  duration \<open>parseInt\<close> reads as a number that is not positive, \<open>handleFormSubmit\<close> only
  shows the notification ``Please fill in all required fields correctly.'', the same for
  either field: the collection, the filtered list and the storage stay as they were.
\<close>

theorem handleFormSubmit_invalid:
  assumes "trim (f_subject formData) = []
     \<or> (\<exists>d. parseInt (f_duration formData) = Num d \<and> d \<le> 0)"
  shows "handleFormSubmit now stamp formData st
     = st\<lparr>notifications := notifications st
           @ [(''Please fill in all required fields correctly.'', ''error'')]\<rparr>"
  using assms
  by (auto simp: handleFormSubmit_def new_session_def Let_def showNotification_def)

theorem handleFormSubmit_invalid_witness:
  "(\<exists>d. parseInt (f_duration (math_form\<lparr>f_duration := ''-5''\<rparr>)) = Num d \<and> d \<le> 0)
   \<and> studyLogs (handleFormSubmit 1704888000123 1704888000124
        (math_form\<lparr>f_duration := ''-5''\<rparr>) (fresh_tracker storage0)) = []
   \<and> localStorage (handleFormSubmit 1704888000123 1704888000124
        (math_form\<lparr>f_duration := ''-5''\<rparr>) (fresh_tracker storage0)) = storage0"
proof -
  have p: "parseInt (f_duration (math_form\<lparr>f_duration := ''-5''\<rparr>)) = Num (- 5)"
    by (simp add: math_form_def string_eval)
  then have h: "trim (f_subject (math_form\<lparr>f_duration := ''-5''\<rparr>)) = []
     \<or> (\<exists>d. parseInt (f_duration (math_form\<lparr>f_duration := ''-5''\<rparr>)) = Num d \<and> d \<le> 0)"
    by simp
  show ?thesis
    using p handleFormSubmit_invalid[OF h, of 1704888000123 1704888000124 "fresh_tracker storage0"]
    by (simp add: fresh_tracker_def)
qed

text \<open>
  A duration that \<open>parseInt\<close> cannot read is \<open>NaN\<close>, and \<open>NaN <= 0\<close> is false: the
  session is added.
\<close>

lemma handleFormSubmit_NaN_duration:
  "map duration (studyLogs (handleFormSubmit 1704888000123 1704888000124
      (math_form\<lparr>f_duration := ''''\<rparr>) (fresh_tracker storage0))) = [NaN]"
  by (simp add: handleFormSubmit_def new_session_def Let_def math_form_def string_eval
      showNotification_def updateFilters_def renderLogs_def fresh_tracker_def)

subsection \<open>The ids of a run of submissions\<close>

lemma studyLogs_handleFormSubmit:
  "studyLogs (handleFormSubmit now stamp formData st) = studyLogs st
   \<or> studyLogs (handleFormSubmit now stamp formData st)
       = new_session now stamp formData # studyLogs st"
  by (simp add: handleFormSubmit_def Let_def showNotification_def updateFilters_def
      renderLogs_def)

lemma id_s_new_session [simp]: "id_s (new_session now stamp formData) = Number_toString (Num now)"
  by (simp add: new_session_def)

lemma nat_toString_inj: "nat_toString a = nat_toString b \<Longrightarrow> a = b"
  by (metis decimal_value_nat_toString)

lemma hd_nat_toString: "hd (nat_toString n) \<noteq> CHR ''-''"
proof -
  have "is_digit (hd (nat_toString n))"
    using digits_nat_toString[of n] nat_toString_not_Nil[of n]
    by (cases "nat_toString n") simp_all
  then show ?thesis by (auto simp: is_digit_def)
qed

lemma Number_toString_inj:
  assumes "Number_toString (Num a) = Number_toString (Num b)"
  shows "a = b"
proof -
  have neg: "x < 0 \<Longrightarrow> 0 \<le> y \<Longrightarrow> Number_toString (Num x) \<noteq> Number_toString (Num y)" for x y
    using hd_nat_toString[of "nat y"] nat_toString_not_Nil[of "nat y"]
    by (cases "nat_toString (nat y)") auto
  show ?thesis
  proof (cases "a < 0")
    case True
    show ?thesis
    proof (cases "b < 0")
      case True
      with \<open>a < 0\<close> assms have "nat (- a) = nat (- b)" by (auto dest: nat_toString_inj)
      with True \<open>a < 0\<close> show ?thesis by simp
    next
      case False
      with True neg[of a b] assms show ?thesis by simp
    qed
  next
    case False
    show ?thesis
    proof (cases "b < 0")
      case True
      with False neg[of b a] assms show ?thesis by simp
    next
      case bF: False
      with False assms have "nat a = nat b" by (auto dest: nat_toString_inj)
      with False bF show ?thesis by simp
    qed
  qed
qed

text \<open>
  Claim C1 says that the ids are pairwise distinct after every sequence of accepted
  submissions. The id is the reading of the clock in milliseconds: two submissions within
  one millisecond get the same id.
\<close>

theorem submit_all_same_millisecond_counterexample:
  "\<not> distinct (map id_s (studyLogs (submit_all
       [(1704888000123, 1704888000123, math_form),
        (1704888000123, 1704888000124, math_form\<lparr>f_subject := ''Physics''\<rparr>)]
       (fresh_tracker storage0))))"
  by (simp add: handleFormSubmit_def Let_def math_form_def string_eval
      showNotification_def updateFilters_def renderLogs_def fresh_tracker_def new_session_def)

text \<open>
  Claim C1, amended. For every sequence of submissions whose readings of \<open>Date.now()\<close> are
  pairwise different and are not ids of the collection they start from, and a starting
  collection with pairwise distinct ids, the ids of the resulting collection are pairwise
  distinct.
\<close>

theorem submit_all_distinct_ids:
  assumes "distinct (map fst evs)"
    and "distinct (map id_s (studyLogs st))"
    and "\<forall>e \<in> set evs. Number_toString (Num (fst e)) \<notin> id_s ` set (studyLogs st)"
  shows "distinct (map id_s (studyLogs (submit_all evs st)))"
  using assms
proof (induction evs arbitrary: st)
  case Nil
  then show ?case by simp
next
  case (Cons e evs)
  obtain now stamp formData where e: "e = (now, stamp, formData)" by (cases e) auto
  let ?st = "handleFormSubmit now stamp formData st"
  have fresh: "Number_toString (Num now) \<notin> id_s ` set (studyLogs st)"
    using Cons.prems(3) e by (simp del: Number_toString.simps)
  have later: "\<forall>e' \<in> set evs. Number_toString (Num (fst e')) \<noteq> Number_toString (Num now)"
    using Cons.prems(1) e by (auto simp del: Number_toString.simps dest!: Number_toString_inj)
  have d: "distinct (map id_s (studyLogs ?st))"
    using studyLogs_handleFormSubmit[of now stamp formData st] Cons.prems(2) fresh
    by (auto simp del: Number_toString.simps)
  have sub: "id_s ` set (studyLogs ?st)
      \<subseteq> insert (Number_toString (Num now)) (id_s ` set (studyLogs st))"
    using studyLogs_handleFormSubmit[of now stamp formData st]
    by (auto simp del: Number_toString.simps)
  have f: "\<forall>e' \<in> set evs. Number_toString (Num (fst e')) \<notin> id_s ` set (studyLogs ?st)"
  proof
    fix e' assume e': "e' \<in> set evs"
    with later have "Number_toString (Num (fst e')) \<noteq> Number_toString (Num now)" by blast
    moreover from e' Cons.prems(3)
    have "Number_toString (Num (fst e')) \<notin> id_s ` set (studyLogs st)" by simp
    ultimately show "Number_toString (Num (fst e')) \<notin> id_s ` set (studyLogs ?st)"
      using sub by blast
  qed
  have "distinct (map id_s (studyLogs (submit_all evs ?st)))"
    using Cons.IH[OF _ d f] Cons.prems(1) by simp
  then show ?case by (simp add: e)
qed

theorem submit_all_distinct_ids_witness:
  "distinct (map fst [(1704888000123 :: int, 1704888000123 :: int, math_form),
        (1704888000124, 1704888000124, math_form\<lparr>f_subject := ''Physics''\<rparr>)])
   \<and> distinct (map id_s (studyLogs (submit_all
       [(1704888000123, 1704888000123, math_form),
        (1704888000124, 1704888000124, math_form\<lparr>f_subject := ''Physics''\<rparr>)]
       (fresh_tracker storage0))))
   \<and> length (studyLogs (submit_all
       [(1704888000123, 1704888000123, math_form),
        (1704888000124, 1704888000124, math_form\<lparr>f_subject := ''Physics''\<rparr>)]
       (fresh_tracker storage0))) = 2"
proof -
  have len: "length (studyLogs (submit_all
       [(1704888000123, 1704888000123, math_form),
        (1704888000124, 1704888000124, math_form\<lparr>f_subject := ''Physics''\<rparr>)]
       (fresh_tracker storage0))) = 2"
    by (simp add: handleFormSubmit_def Let_def math_form_def string_eval
      showNotification_def updateFilters_def renderLogs_def fresh_tracker_def new_session_def)
  show ?thesis
    using len submit_all_distinct_ids[of "[(1704888000123, 1704888000123, math_form),
        (1704888000124, 1704888000124, math_form\<lparr>f_subject := ''Physics''\<rparr>)]"
        "fresh_tracker storage0"]
    by (simp add: fresh_tracker_def)
qed

lemmas handler_eval = handleFormSubmit_def deleteLog_def handleModalConfirm_def
  showClearAllConfirmation_def hideModal_def applyFilters_def Let_def showNotification_def
  updateFilters_def renderLogs_def fresh_tracker_def new_session_def math_form_def
  subjectMatch_def dateMatch_def

section \<open>The filtered list after a change of the collection\<close>

text \<open>
  Claim C2 says that after every change of the collection the filtered list is the current
  criteria applied to the new collection. Submitting a session to the fresh tracker, with
  both criteria empty, leaves \<open>filteredLogs\<close> and the cards shown empty, although the
  collection now holds the session; \<open>applyFilters\<close>, which the handler does not call, would
  list it.
\<close>

theorem filteredLogs_stale_after_add:
  "studyLogs (handleFormSubmit 1704888000123 1704888000124 math_form (fresh_tracker storage0))
     = [new_session 1704888000123 1704888000124 math_form]
   \<and> filteredLogs (handleFormSubmit 1704888000123 1704888000124 math_form
        (fresh_tracker storage0)) = []
   \<and> logsContainer (handleFormSubmit 1704888000123 1704888000124 math_form
        (fresh_tracker storage0)) = []
   \<and> filteredLogs (applyFilters (handleFormSubmit 1704888000123 1704888000124 math_form
        (fresh_tracker storage0))) = [new_session 1704888000123 1704888000124 math_form]"
  by (simp add: handler_eval string_eval)

text \<open>Deleting and clearing leave the deleted sessions in the list in the same way.\<close>

lemma filteredLogs_stale_after_delete:
  "studyLogs (snd (deleteLog ''17'' (applyFilters ((fresh_tracker storage0)\<lparr>studyLogs :=
       [mk_session ''17'' ''Math'' 30 ''minutes'' ''2024-01-10'']\<rparr>)))) = []
   \<and> filteredLogs (snd (deleteLog ''17'' (applyFilters ((fresh_tracker storage0)\<lparr>studyLogs :=
       [mk_session ''17'' ''Math'' 30 ''minutes'' ''2024-01-10'']\<rparr>))))
     = [mk_session ''17'' ''Math'' 30 ''minutes'' ''2024-01-10'']
   \<and> logsContainer (snd (deleteLog ''17'' (applyFilters ((fresh_tracker storage0)\<lparr>studyLogs :=
       [mk_session ''17'' ''Math'' 30 ''minutes'' ''2024-01-10'']\<rparr>))))
     = [mk_session ''17'' ''Math'' 30 ''minutes'' ''2024-01-10'']"
  by (simp add: handler_eval mk_session_def)

lemma filteredLogs_stale_after_clear:
  "studyLogs (handleModalConfirm (showClearAllConfirmation (applyFilters
       ((fresh_tracker storage0)\<lparr>studyLogs :=
          [mk_session ''17'' ''Math'' 30 ''minutes'' ''2024-01-10'']\<rparr>)))) = []
   \<and> filteredLogs (handleModalConfirm (showClearAllConfirmation (applyFilters
       ((fresh_tracker storage0)\<lparr>studyLogs :=
          [mk_session ''17'' ''Math'' 30 ''minutes'' ''2024-01-10'']\<rparr>))))
     = [mk_session ''17'' ''Math'' 30 ''minutes'' ''2024-01-10'']"
  by (simp add: handler_eval mk_session_def)

text \<open>The handlers never touch \<open>filteredLogs\<close>, whatever the state.\<close>

lemma filteredLogs_unchanged_by_mutations:
  "filteredLogs (handleFormSubmit now stamp formData st) = filteredLogs st"
  "filteredLogs (snd (deleteLog ident st)) = filteredLogs st"
  "filteredLogs (handleModalConfirm st) = filteredLogs st"
  by (simp_all add: handleFormSubmit_def deleteLog_def handleModalConfirm_def hideModal_def
      Let_def showNotification_def updateFilters_def renderLogs_def)

section \<open>Loading\<close>





section \<open>Calendar\<close>

lemma divmod_split:
  fixes x :: int
  assumes "0 < k"
  obtains u r where "x div k = u" "x mod k = r" "x = k * u + r" "0 \<le> r" "r < k"
  using assms by (metis mult_div_mod_eq pos_mod_bound pos_mod_sign)

text \<open>
  The day count of the date of day \<open>n\<close> is \<open>n\<close> again, and the date has a month from 1 to
  12 and a day from 1 to 31.
\<close>

lemma civil_from_days_props:
  obtains y m d where "civil_from_days n = (y, m, d)" "days_from_civil y m d = n"
    "1 \<le> m" "m \<le> 12" "1 \<le> d" "d \<le> 31"
proof -
  define z where "z = n + 719468"
  obtain era doe where era: "z div 146097 = era" and doe: "z mod 146097 = doe"
    and z: "z = 146097 * era + doe" and doe0: "0 \<le> doe" and doe1: "doe < 146097"
    by (rule divmod_split[of 146097 z]) simp
  obtain k1 s1 where k1: "doe div 36524 = k1"
    and s1: "doe = 36524 * k1 + s1" "0 \<le> s1" "s1 < 36524"
    by (rule divmod_split[of 36524 doe]) simp
  define c where "c = min 3 k1"
  define r100 where "r100 = doe - c * 36524"
  have c: "0 \<le> c" "c \<le> 3"
    using s1 doe0 doe1 unfolding c_def min_def by (simp_all split: if_splits)
  have r100: "0 \<le> r100" "r100 \<le> 36524"
    using s1 doe0 doe1 unfolding r100_def c_def min_def by (simp_all split: if_splits)
  obtain q r4 where q: "r100 div 1461 = q" and r4: "r100 mod 1461 = r4"
    and r100_eq: "r100 = 1461 * q + r4" and r40: "0 \<le> r4" and r41: "r4 < 1461"
    by (rule divmod_split[of 1461 r100]) simp
  have qb: "0 \<le> q" "q \<le> 24" using r100 r100_eq r40 r41 by linarith+
  obtain k2 s2 where k2: "r4 div 365 = k2"
    and s2: "r4 = 365 * k2 + s2" "0 \<le> s2" "s2 < 365"
    by (rule divmod_split[of 365 r4]) simp
  define a where "a = min 3 k2"
  define doy where "doy = r4 - a * 365"
  have a: "0 \<le> a" "a \<le> 3"
    using s2 r40 r41 unfolding a_def min_def by (simp_all split: if_splits)
  have doyb: "0 \<le> doy" "doy \<le> 365"
    using s2 r40 r41 unfolding doy_def a_def min_def by (simp_all split: if_splits)
  obtain mp s3 where mp: "(5 * doy + 2) div 153 = mp"
    and s3: "5 * doy + 2 = 153 * mp + s3" "0 \<le> s3" "s3 < 153"
    by (rule divmod_split[of 153 "5 * doy + 2"]) simp
  have mpb: "0 \<le> mp" "mp \<le> 11" using doyb s3 by linarith+
  obtain t s4 where t: "(153 * mp + 2) div 5 = t"
    and s4: "153 * mp + 2 = 5 * t + s4" "0 \<le> s4" "s4 < 5"
    by (rule divmod_split[of 5 "153 * mp + 2"]) simp
  define d where "d = doy - t + 1"
  define m where "m = (if mp < 10 then mp + 3 else mp - 9)"
  define yoe where "yoe = 100 * c + 4 * q + a"
  have db: "1 \<le> d" "d \<le> 31" using s3 s4 unfolding d_def by linarith+
  have mb: "1 \<le> m" "m \<le> 12" using mpb unfolding m_def by auto
  have cfd: "civil_from_days n = (400 * era + yoe + (if m \<le> 2 then 1 else 0), m, d)"
    unfolding civil_from_days_def Let_def z_def[symmetric] era doe k1 c_def[symmetric]
      r100_def[symmetric] q r4 k2 a_def[symmetric] doy_def[symmetric] mp t d_def[symmetric]
      m_def[symmetric] yoe_def by simp
  have yoeb: "0 \<le> yoe" "yoe < 400" using c qb a unfolding yoe_def by linarith+
  have yoe4: "yoe div 4 = 25 * c + q"
  proof -
    have "yoe = (25 * c + q) * 4 + a" unfolding yoe_def by simp
    then have "yoe div 4 = 25 * c + q + a div 4" by simp
    moreover have "a div 4 = 0" using a by simp
    ultimately show ?thesis by simp
  qed
  have yoe100: "yoe div 100 = c"
  proof -
    have "yoe = c * 100 + (4 * q + a)" unfolding yoe_def by simp
    then have "yoe div 100 = c + (4 * q + a) div 100" by simp
    moreover have "(4 * q + a) div 100 = 0" using a qb by simp
    ultimately show ?thesis by simp
  qed
  have era': "(400 * era + yoe) div 400 = era"
  proof -
    have "(400 * era + yoe) div 400 = era + yoe div 400" by simp
    moreover have "yoe div 400 = 0" using yoeb by simp
    ultimately show ?thesis by simp
  qed
  have yoe': "(400 * era + yoe) mod 400 = yoe" using yoeb by simp
  have mp': "(if m > 2 then m - 3 else m + 9) = mp" using mpb unfolding m_def by auto
  have doy': "t + d - 1 = doy" unfolding d_def by simp
  have y': "(if m \<le> 2 then 400 * era + yoe + (if m \<le> 2 then 1 else 0) - 1
             else 400 * era + yoe + (if m \<le> 2 then 1 else 0)) = 400 * era + yoe" by simp
  have "days_from_civil (400 * era + yoe + (if m \<le> 2 then 1 else 0)) m d
        = era * 146097 + (yoe * 365 + yoe div 4 - yoe div 100 + doy) - 719468"
    unfolding days_from_civil_def Let_def y' era' yoe' mp' t doy' by simp
  also have "yoe * 365 + yoe div 4 - yoe div 100 + doy = doe"
    unfolding yoe4 yoe100 using r100_eq unfolding yoe_def doy_def r100_def
    by (simp add: algebra_simps)
  also have "era * 146097 + doe - 719468 = n" using z unfolding z_def by simp
  finally have "days_from_civil (400 * era + yoe + (if m \<le> 2 then 1 else 0)) m d = n" .
  with cfd mb db show ?thesis using that by blast
qed

lemma days_from_civil_day: "days_from_civil y m d = days_from_civil y m 1 + d - 1"
  by (simp add: days_from_civil_def Let_def)


section \<open>Dates\<close>

lemma Day_shift: "Day (t + i * msPerDay) = Day t + i"
  by (simp add: Day_def msPerDay_def)

lemma TimeWithinDay_shift: "TimeWithinDay (t + i * msPerDay) = TimeWithinDay t"
  by (simp add: TimeWithinDay_def msPerDay_def)

lemma Day_TimeWithinDay: "Day t * msPerDay + TimeWithinDay t = t"
  by (simp add: Day_def TimeWithinDay_def)

text \<open>\<open>setDate(getDate() - i)\<close> goes back \<open>i\<close> days and keeps the time of day.\<close>

lemma setDate_getDate: "setDate tz t (getDate tz t - i) = t - i * msPerDay"
proof -
  obtain y m d where c: "civil_from_days (Day (LocalTime tz t)) = (y, m, d)"
    and r: "days_from_civil y m d = Day (LocalTime tz t)"
    by (rule civil_from_days_props)
  have "MakeDay y m (d - i) = Day (LocalTime tz t) - i"
    using r days_from_civil_day[of y m d] by (simp add: MakeDay_def)
  then have "setDate tz t (getDate tz t - i)
      = UTC tz ((Day (LocalTime tz t) - i) * msPerDay + TimeWithinDay (LocalTime tz t))"
    by (simp add: setDate_def getDate_def c Let_def)
  also have "\<dots> = UTC tz (LocalTime tz t - i * msPerDay)"
    using Day_TimeWithinDay[of "LocalTime tz t"] by (simp add: algebra_simps)
  also have "\<dots> = t - i * msPerDay" by (simp add: UTC_def LocalTime_def)
  finally show ?thesis .
qed

lemma startOfWeek_eq:
  "startOfWeek tz now
     = (Day (LocalTime tz now) - WeekDay (LocalTime tz now)) * msPerDay - tz * 60000"
proof -
  let ?k = "getDay tz now"
  have "LocalTime tz (now - ?k * msPerDay) = LocalTime tz now + (- ?k) * msPerDay"
    by (simp add: LocalTime_def)
  then have "Day (LocalTime tz (now - ?k * msPerDay)) = Day (LocalTime tz now) - ?k"
    using Day_shift[of "LocalTime tz now" "- ?k"] by simp
  then show ?thesis
    by (simp add: startOfWeek_def Let_def setDate_getDate setHours0_def UTC_def getDay_def)
qed

section \<open>Totals as sums\<close>

text \<open>
  When no duration is \<open>NaN\<close>, \<open>calculateTotalMinutes\<close> is the sum of the durations, an
  hour counting as 60 minutes.
\<close>

lemma foldl_total:
  assumes "\<forall>log \<in> set logs. duration log \<noteq> NaN"
  shows "foldl (\<lambda>total log. number_add total (minutes_of log)) (Num acc) logs
     = Num (acc + (\<Sum>log\<leftarrow>logs. int_of (duration log)
                      * (if timeUnit log = ''hours'' then 60 else 1)))"
  using assms
proof (induction logs arbitrary: acc)
  case Nil
  then show ?case by simp
next
  case (Cons log logs)
  then obtain n where n: "duration log = Num n" by (cases "duration log") auto
  have "number_add (Num acc) (minutes_of log)
      = Num (acc + n * (if timeUnit log = ''hours'' then 60 else 1))"
    by (simp add: minutes_of_def n)
  with Cons show ?case by (simp add: n int_of_def add.assoc)
qed

lemma calculateTotalMinutes_sum:
  assumes "\<forall>log \<in> set logs. duration log \<noteq> NaN"
  shows "calculateTotalMinutes logs
     = Num (\<Sum>log\<leftarrow>logs. int_of (duration log) * (if timeUnit log = ''hours'' then 60 else 1))"
  using foldl_total[OF assms, of 0] by (simp add: calculateTotalMinutes_def)

section \<open>The week's total\<close>

lemma week_start_is_sunday:
  fixes D :: int
  defines "S \<equiv> D - (D + 4) mod 7"
  shows "(S + 4) mod 7 = 0" "S \<le> D" "D < S + 7"
  unfolding S_def by presburger+

lemma Date_parse_valid: "valid_date s \<Longrightarrow> Date_parse s = Some (date_day s * msPerDay)"
  by (auto simp: valid_date_def Date_parse_def date_day_def split: option.splits)

lemma start_le_day_iff:
  fixes S D off :: int
  assumes "0 \<le> off" "off < msPerDay"
  shows "S * msPerDay - off \<le> D * msPerDay \<longleftrightarrow> S \<le> D"
proof
  assume h: "S * msPerDay - off \<le> D * msPerDay"
  show "S \<le> D"
  proof (rule ccontr)
    assume "\<not> S \<le> D"
    then have "D + 1 \<le> S" by simp
    then have "(D + 1) * msPerDay \<le> S * msPerDay" by (simp add: msPerDay_def)
    with h assms show False by (simp add: algebra_simps)
  qed
next
  assume "S \<le> D"
  then have "S * msPerDay \<le> D * msPerDay" by (simp add: msPerDay_def)
  with assms show "S * msPerDay - off \<le> D * msPerDay" by linarith
qed

lemma getWeekLogs_east:
  assumes "0 \<le> tz" "tz < 1440" "\<forall>log \<in> set logs. valid_date (date log)"
  shows "getWeekLogs tz now logs
     = filter (\<lambda>log. Day (LocalTime tz now) - WeekDay (LocalTime tz now) \<le> date_day (date log))
         logs"
proof -
  have off: "0 \<le> tz * 60000" "tz * 60000 < msPerDay" using assms(1,2) by (simp_all add: msPerDay_def)
  show ?thesis
    unfolding getWeekLogs_def
  proof (rule filter_cong[OF refl])
    fix log assume "log \<in> set logs"
    with assms(3) have "Date_parse (date log) = Some (date_day (date log) * msPerDay)"
      by (simp add: Date_parse_valid)
    then show "(case Date_parse (date log) of None \<Rightarrow> False
                | Some logDate \<Rightarrow> startOfWeek tz now \<le> logDate)
        = (Day (LocalTime tz now) - WeekDay (LocalTime tz now) \<le> date_day (date log))"
      using start_le_day_iff[OF off] by (simp add: startOfWeek_eq)
  qed
qed

text \<open>
  Claim C3, amended. For every collection whose dates are days of the calendar, and a host
  whose time zone is at or east of UTC, \<open>weekTotal\<close> sums exactly the sessions dated on
  or after the most recent Sunday at or before today, today being the local day of the
  clock reading. A session dated on that Sunday is counted, and so are the sessions dated
  after today, also when today is a Sunday.
\<close>

theorem weekTotal_east_of_UTC:
  assumes "0 \<le> tz" "tz < 1440" "\<forall>log \<in> set logs. valid_date (date log)"
  shows "\<exists>sunday. WeekDay (sunday * msPerDay) = 0
     \<and> sunday \<le> Day (LocalTime tz now) \<and> Day (LocalTime tz now) < sunday + 7
     \<and> weekTotal tz now logs
         = calculateTotalMinutes (filter (\<lambda>log. sunday \<le> date_day (date log)) logs)"
proof -
  let ?D = "Day (LocalTime tz now)"
  let ?S = "?D - (?D + 4) mod 7"
  have "WeekDay (?S * msPerDay) = 0"
    using week_start_is_sunday(1)[of ?D] by (simp add: WeekDay_def Day_def msPerDay_def)
  moreover have "?S \<le> ?D" "?D < ?S + 7" using week_start_is_sunday(2,3)[of ?D] by simp_all
  moreover have "weekTotal tz now logs
      = calculateTotalMinutes (filter (\<lambda>log. ?S \<le> date_day (date log)) logs)"
    using getWeekLogs_east[OF assms] by (simp add: weekTotal_def WeekDay_def)
  ultimately show ?thesis by blast
qed

text \<open>
  Claim C3 says that on a Sunday only that day's sessions are in the week's total. The
  filter has a lower bound only: on Sunday 2024-01-07, in a UTC host, a session dated the
  Monday after is counted, and no session is dated that Sunday.
\<close>

theorem weekTotal_on_sunday_counterexample:
  "getDay 0 1704628800000 = 0
   \<and> weekTotal 0 1704628800000 [mk_session ''18'' ''Physics'' 45 ''minutes'' ''2024-01-08'']
       = Num 45
   \<and> todayTotal 1704628800000 [mk_session ''18'' ''Physics'' 45 ''minutes'' ''2024-01-08'']
       = Num 0"
  by code_simp

text \<open>
  West of UTC the start of the week lies after the UTC start of the Sunday, which is what a
  date string denotes: five hours west, on Wednesday 2024-01-10, a session dated Sunday
  2024-01-07 is not counted.
\<close>

lemma weekTotal_west_of_UTC:
  "getDay (- 300) 1704888000123 = 3
   \<and> weekTotal (- 300) 1704888000123
        [mk_session ''17'' ''Math'' 30 ''minutes'' ''2024-01-07''] = Num 0
   \<and> toISOString (startOfWeek (- 300) 1704888000123) = ''2024-01-07T05:00:00.000Z''"
  by code_simp


text \<open>
  Five and a half hours east, on Wednesday 2024-01-10: the Sunday and the Wednesday
  sessions are counted, the Saturday session is not.
\<close>

theorem weekTotal_east_of_UTC_witness:
  "(0::int) \<le> 330 \<and> (330::int) < 1440
   \<and> list_all (\<lambda>log. valid_date (date log))
        [mk_session ''17'' ''Math'' 30 ''minutes'' ''2024-01-07'',
         mk_session ''18'' ''Physics'' 45 ''minutes'' ''2024-01-06'',
         mk_session ''19'' ''Art'' 1 ''hours'' ''2024-01-10'']
   \<and> weekTotal 330 1704888000123
        [mk_session ''17'' ''Math'' 30 ''minutes'' ''2024-01-07'',
         mk_session ''18'' ''Physics'' 45 ''minutes'' ''2024-01-06'',
         mk_session ''19'' ''Art'' 1 ''hours'' ''2024-01-10''] = Num 90
   \<and> (\<exists>sunday. WeekDay (sunday * msPerDay) = 0
     \<and> sunday \<le> Day (LocalTime 330 1704888000123)
     \<and> Day (LocalTime 330 1704888000123) < sunday + 7
     \<and> weekTotal 330 1704888000123
        [mk_session ''17'' ''Math'' 30 ''minutes'' ''2024-01-07'',
         mk_session ''18'' ''Physics'' 45 ''minutes'' ''2024-01-06'',
         mk_session ''19'' ''Art'' 1 ''hours'' ''2024-01-10'']
       = calculateTotalMinutes (filter (\<lambda>log. sunday \<le> date_day (date log))
        [mk_session ''17'' ''Math'' 30 ''minutes'' ''2024-01-07'',
         mk_session ''18'' ''Physics'' 45 ''minutes'' ''2024-01-06'',
         mk_session ''19'' ''Art'' 1 ''hours'' ''2024-01-10'']))"
proof -
  let ?logs = "[mk_session ''17'' ''Math'' 30 ''minutes'' ''2024-01-07'',
         mk_session ''18'' ''Physics'' 45 ''minutes'' ''2024-01-06'',
         mk_session ''19'' ''Art'' 1 ''hours'' ''2024-01-10'']"
  have v': "list_all (\<lambda>log. valid_date (date log)) ?logs" by code_simp
  then have v: "\<forall>log \<in> set ?logs. valid_date (date log)" by (simp only: list_all_iff)
  have w: "weekTotal 330 1704888000123 ?logs = Num 90" by code_simp
  have h: "(0::int) \<le> 330" "(330::int) < 1440" by simp_all
  note ex = weekTotal_east_of_UTC[OF h v, of 1704888000123]
  show ?thesis
    apply (intro conjI)
        apply (rule h(1))
       apply (rule h(2))
      apply (rule v')
     apply (rule w)
    apply (rule ex)
    done
qed

section \<open>The daily chart\<close>









subsection \<open>Different days have different renderings\<close>








subsection \<open>The seven entries\<close>









end
